theory Spec2Isabelle
  imports Main
begin

section \<open>PathSetup (utils/path\_setup.py)\<close>

text \<open>
  \<open>os.path.dirname\<close> on a POSIX path: the part of the path up to and including the last
  separator, with the trailing separators removed unless that part consists of separators
  only.
\<close>

definition head_upto_sep :: "string \<Rightarrow> string" where
  "head_upto_sep p = rev (dropWhile (\<lambda>c. c \<noteq> CHR ''/'') (rev p))"

definition rstrip_sep :: "string \<Rightarrow> string" where
  "rstrip_sep s = rev (dropWhile (\<lambda>c. c = CHR ''/'') (rev s))"

definition dirname :: "string \<Rightarrow> string" where
  "dirname p =
     (let head = head_upto_sep p
      in if head \<noteq> [] \<and> filter (\<lambda>c. c \<noteq> CHR ''/'') head \<noteq> [] then rstrip_sep head
         else head)"

text \<open>
  \<open>PathSetup.add_project_root_to_sys_path\<close>. The argument \<open>file_abs\<close> is the value of
  \<open>os.path.abspath(__file__)\<close>, \<open>sys_path\<close> is the module search path \<open>sys.path\<close>; the
  result is the search path after the call.
\<close>

definition add_project_root_to_sys_path :: "string \<Rightarrow> string list \<Rightarrow> string list" where
  "add_project_root_to_sys_path file_abs sys_path =
     (let current_dir = dirname file_abs;
          project_root = dirname current_dir
      in if project_root \<notin> set sys_path then project_root # sys_path else sys_path)"

section \<open>Exceptions and log records\<close>

text \<open>
  Python exceptions as values. \<open>RuntimeError\<close> carries its \<open>__cause__\<close> (the exception
  after \<open>raise ... from\<close>). \<open>KeyboardInterrupt\<close> stands for the exceptions that derive
  from \<open>BaseException\<close> only, which \<open>except Exception\<close> does not catch. The messages of
  exceptions raised by the interpreter are those of CPython 3.11.
\<close>

datatype exn =
    TypeError string
  | ValueError string
  | OSError string
  | RuntimeError string "exn option"
  | KeyboardInterrupt

fun is_Exception :: "exn \<Rightarrow> bool" where
  "is_Exception KeyboardInterrupt = False"
| "is_Exception _ = True"


fun str_exn :: "exn \<Rightarrow> string" where
  "str_exn (TypeError m) = m"
| "str_exn (ValueError m) = m"
| "str_exn (OSError m) = m"
| "str_exn (RuntimeError m _) = m"
| "str_exn KeyboardInterrupt = []"

text \<open>The numeric levels of the \<open>logging\<close> module.\<close>

definition logging_DEBUG :: nat where "logging_DEBUG = 10"
definition logging_INFO :: nat where "logging_INFO = 20"
definition logging_WARNING :: nat where "logging_WARNING = 30"
definition logging_ERROR :: nat where "logging_ERROR = 40"
definition logging_CRITICAL :: nat where "logging_CRITICAL = 50"

text \<open>
  A record handed to a logger: the logger's name, the level and the message. Every module
  logger of the repository is made by \<open>LoggingWrapper(__name__)\<close>, which sets the logger's
  level to DEBUG and gives it a file sink at DEBUG, so every record handed to it is logged.
\<close>

type_synonym log_record = "string \<times> nat \<times> string"

section \<open>EnvManager (utils/env\_manager.py)\<close>

text \<open>
  The state of the process that the environment manager reads and writes: the two class
  attributes \<open>_instance\<close> (the address of the shared object, if one was made) and
  \<open>_env_loaded\<close>, the process environment \<open>os.environ\<close>, the next free object address of
  the heap, the paths handed to \<open>load_dotenv\<close> so far, and the records logged so far.
\<close>

record process =
  cls_instance :: "nat option"
  cls_env_loaded :: bool
  environ :: "string \<rightharpoonup> string"
  next_addr :: nat
  dotenv_reads :: "string list"
  log_records :: "log_record list"

text \<open>
  \<open>load_dotenv\<close> belongs to the python-dotenv package, not to the repository: it is a
  parameter. Given the path and the current environment it returns or raises, and leaves
  an environment behind in both cases.
\<close>

type_synonym loader = "string \<Rightarrow> (string \<rightharpoonup> string) \<Rightarrow> (exn + bool) \<times> (string \<rightharpoonup> string)"

definition log_to :: "string \<Rightarrow> nat \<Rightarrow> string \<Rightarrow> process \<Rightarrow> process" where
  "log_to name lvl msg s = s\<lparr>log_records := log_records s @ [(name, lvl, msg)]\<rparr>"

text \<open>The module logger of env\_manager.py: \<open>LoggingWrapper(__name__).logger\<close>.\<close>

definition env_manager_name :: string where
  "env_manager_name = ''utils.env_manager''"

definition object_new :: "process \<Rightarrow> string list \<Rightarrow> (string \<times> string) list \<Rightarrow> exn + nat \<times> process" where
  "object_new s args kwargs =
     (if args = [] \<and> kwargs = [] then Inr (next_addr s, s\<lparr>next_addr := Suc (next_addr s)\<rparr>)
      else Inl (TypeError ''object.__new__() takes exactly one argument (the type to instantiate)''))"

text \<open>
  \<open>__new__(cls, *args, **kwargs)\<close>: a keyword named \<open>cls\<close> is refused when the arguments
  are bound, before the body runs.
\<close>

definition EnvManager_new :: "process \<Rightarrow> string list \<Rightarrow> (string \<times> string) list \<Rightarrow> exn + nat \<times> process" where
  "EnvManager_new s args kwargs =
     (if ''cls'' \<in> set (map fst kwargs)
      then Inl (TypeError (''EnvManager.__new__() got multiple values for argument 'cls'' @ [CHR 0x27]))
      else
        (case cls_instance s of
           None \<Rightarrow>
             (case object_new s args kwargs of
                Inl e \<Rightarrow> Inl e
              | Inr (a, s') \<Rightarrow> Inr (a, s'\<lparr>cls_instance := Some a\<rparr>))
         | Some a \<Rightarrow> Inr (a, s)))"

definition load_env :: "loader \<Rightarrow> process \<Rightarrow> string \<Rightarrow> (exn + unit) \<times> process" where
  "load_env load_dotenv s file_path =
     (if \<not> cls_env_loaded s then
        (case load_dotenv file_path (environ s) of
           (Inr found, env') \<Rightarrow>
             (let s1 = s\<lparr>environ := env', dotenv_reads := dotenv_reads s @ [file_path]\<rparr>;
                  s2 = (if found
                        then log_to env_manager_name logging_INFO
                               (''Environment variables loaded from '' @ file_path) s1
                        else log_to env_manager_name logging_WARNING
                               (''No environment variables found in '' @ file_path) s1)
              in (Inr (), s2\<lparr>cls_env_loaded := True\<rparr>))
         | (Inl e, env') \<Rightarrow>
             (let s1 = s\<lparr>environ := env', dotenv_reads := dotenv_reads s @ [file_path]\<rparr>
              in if is_Exception e
                 then (Inl (RuntimeError (''Failed to load environment variables from '' @ file_path)
                              (Some e)),
                       log_to env_manager_name logging_ERROR
                         (''Error loading environment variables from '' @ file_path @ '': '' @ str_exn e)
                         s1)
                 else (Inl e, s1)))
      else (Inr (), s))"

text \<open>
  Binding the arguments of a call to \<open>__init__(self, file_path='.env')\<close>: the keywords are
  checked in order, then the number of positional arguments.
\<close>

fun str_of_nat :: "nat \<Rightarrow> string" where
  "str_of_nat n =
     (if n < 10 then [char_of (48 + n)] else str_of_nat (n div 10) @ [char_of (48 + n mod 10)])"

declare str_of_nat.simps [simp del]

fun bind_keywords :: "string option \<Rightarrow> (string \<times> string) list \<Rightarrow> exn + string option" where
  "bind_keywords acc [] = Inr acc"
| "bind_keywords acc ((k, v) # kws) =
     (if k = ''self''
      then Inl (TypeError (''EnvManager.__init__() got multiple values for argument 'self'' @ [CHR 0x27]))
      else if k = ''file_path''
      then (case acc of
              Some _ \<Rightarrow>
                Inl (TypeError (''EnvManager.__init__() got multiple values for argument 'file_path'' @ [CHR 0x27]))
            | None \<Rightarrow> bind_keywords (Some v) kws)
      else Inl (TypeError (''EnvManager.__init__() got an unexpected keyword argument '' @ [CHR 0x27] @ k
                        @ [CHR 0x27])))"

definition bind_file_path :: "string list \<Rightarrow> (string \<times> string) list \<Rightarrow> exn + string" where
  "bind_file_path args kwargs =
     (case bind_keywords (case args of [] \<Rightarrow> None | p # _ \<Rightarrow> Some p) kwargs of
        Inl e \<Rightarrow> Inl e
      | Inr acc \<Rightarrow>
          if 1 < length args
          then Inl (TypeError (''EnvManager.__init__() takes from 1 to 2 positional arguments but ''
                      @ str_of_nat (length args + 1) @ '' were given''))
          else Inr (case acc of None \<Rightarrow> ''.env'' | Some p \<Rightarrow> p))"

definition EnvManager_init ::
  "loader \<Rightarrow> process \<Rightarrow> string list \<Rightarrow> (string \<times> string) list \<Rightarrow> (exn + unit) \<times> process" where
  "EnvManager_init load_dotenv s args kwargs =
     (case bind_file_path args kwargs of
        Inl e \<Rightarrow> (Inl e, s)
      | Inr file_path \<Rightarrow>
          if \<not> cls_env_loaded s then load_env load_dotenv s file_path else (Inr (), s))"

text \<open>
  The construction request \<open>EnvManager(*args, **kwargs)\<close>: \<open>__new__\<close>, then \<open>__init__\<close> on
  the object it returned, with the same arguments. The result is the object's address.
\<close>

definition EnvManager_call ::
  "loader \<Rightarrow> process \<Rightarrow> string list \<Rightarrow> (string \<times> string) list \<Rightarrow> (exn + nat) \<times> process" where
  "EnvManager_call load_dotenv s args kwargs =
     (case EnvManager_new s args kwargs of
        Inl e \<Rightarrow> (Inl e, s)
      | Inr (a, s1) \<Rightarrow>
          (case EnvManager_init load_dotenv s1 args kwargs of
             (Inl e, s2) \<Rightarrow> (Inl e, s2)
           | (Inr u, s2) \<Rightarrow> (Inr a, s2)))"

text \<open>
  A sequence of construction requests, each with the loader (the files) of its moment; the
  results are kept in order.
\<close>

fun run_constructions ::
  "process \<Rightarrow> (loader \<times> string list \<times> (string \<times> string) list) list \<Rightarrow> (exn + nat) list \<times> process" where
  "run_constructions s [] = ([], s)"
| "run_constructions s ((ld, args, kwargs) # reqs) =
     (case EnvManager_call ld s args kwargs of
        (r, s1) \<Rightarrow> (case run_constructions s1 reqs of (rs, s2) \<Rightarrow> (r # rs, s2)))"

fun returned :: "(exn + 'a) list \<Rightarrow> 'a list" where
  "returned [] = []"
| "returned (Inr a # rs) = a # returned rs"
| "returned (Inl e # rs) = returned rs"

text \<open>
  \<open>os.getenv(name, default)\<close> and \<open>get_env_variable\<close>. An omitted default is \<open>None\<close>. The
  lookup of a string in the environment does not raise; the \<open>except\<close> branch of the source
  is kept.
\<close>

definition os_getenv :: "(string \<rightharpoonup> string) \<Rightarrow> string \<Rightarrow> string option \<Rightarrow> exn + string option" where
  "os_getenv env name dflt = Inr (case env name of Some v \<Rightarrow> Some v | None \<Rightarrow> dflt)"

definition str_opt :: "string option \<Rightarrow> string" where
  "str_opt v = (case v of None \<Rightarrow> ''None'' | Some x \<Rightarrow> x)"

definition get_env_variable :: "process \<Rightarrow> string \<Rightarrow> string option \<Rightarrow> (exn + string option) \<times> process" where
  "get_env_variable s name dflt =
     (case os_getenv (environ s) name dflt of
        Inr val \<Rightarrow>
          (case val of
             None \<Rightarrow>
               (Inr None,
                log_to env_manager_name logging_WARNING
                  (''Environment variable '' @ name @ '' not found, using default value: ''
                     @ str_opt dflt) s)
           | Some v \<Rightarrow> (Inr (Some v), s))
      | Inl e \<Rightarrow>
          if is_Exception e
          then (Inl (RuntimeError (''Failed to get environment variable '' @ name) (Some e)),
                log_to env_manager_name logging_ERROR
                  (''Error getting environment variable '' @ name @ '': '' @ str_exn e) s)
          else (Inl e, s))"

text \<open>
  A process at start-up, with the environment \<open>env\<close>: the class attributes have their
  initial values \<open>None\<close> and \<open>False\<close>.
\<close>

definition fresh_process :: "(string \<rightharpoonup> string) \<Rightarrow> process" where
  "fresh_process env =
     \<lparr>cls_instance = None, cls_env_loaded = False, environ = env, next_addr = 0,
      dotenv_reads = [], log_records = []\<rparr>"

text \<open>
  A loader to run the model on: python-dotenv with its default settings over a table of
  files, each given by the bindings it holds. An absent file and a file without bindings
  give \<open>False\<close>; otherwise the file's bindings (the last one of a key counts) are applied
  where the environment has no value yet, and the result is \<open>True\<close>.
\<close>

definition dotenv_files :: "(string \<rightharpoonup> (string \<times> string) list) \<Rightarrow> loader" where
  "dotenv_files files path env =
     (case files path of
        None \<Rightarrow> (Inr False, env)
      | Some [] \<Rightarrow> (Inr False, env)
      | Some (kv # kvs) \<Rightarrow> (Inr True, map_of (rev (kv # kvs)) ++ env))"

section \<open>The example script (scripts/example\_script.py)\<close>



























section \<open>LoggingWrapper (utils/logging\_wrapper.py)\<close>

text \<open>
  A sink is a handler's destination: the rotating file with its path, its size threshold
  and its number of backups, or the console stream. A handler has a sink, a level and a
  format; a logger has a level and its handlers, in the order they were added.
\<close>

datatype sink = RotatingFile string nat nat | Stream

record handler =
  h_sink :: sink
  h_level :: nat
  h_formatter :: string

record logger =
  lg_level :: nat
  lg_handlers :: "handler list"

text \<open>
  The state the wrapper works on: the registry behind \<open>logging.getLogger\<close> and the file
  system. The operating system is a parameter of every call: whether a path exists, what
  \<open>os.makedirs\<close> and the opening of the log file do to the file system (or which error
  they raise), and the time stamp \<open>datetime.now().strftime('%Y%m%d_%H%M%S')\<close>.
\<close>

record 'fs logging =
  loggers :: "string \<rightharpoonup> logger"
  filesystem :: "'fs"

record 'fs platform =
  path_exists :: "'fs \<Rightarrow> string \<Rightarrow> bool"
  makedirs :: "'fs \<Rightarrow> string \<Rightarrow> exn + 'fs"
  open_append :: "'fs \<Rightarrow> string \<Rightarrow> exn + 'fs"
  strftime_now :: string

definition getLogger :: "'fs logging \<Rightarrow> string \<Rightarrow> 'fs logging" where
  "getLogger s name =
     (case loggers s name of
        None \<Rightarrow> s\<lparr>loggers := (loggers s)(name \<mapsto> \<lparr>lg_level = 0, lg_handlers = []\<rparr>)\<rparr>
      | Some _ \<Rightarrow> s)"

definition setLevel :: "'fs logging \<Rightarrow> string \<Rightarrow> nat \<Rightarrow> 'fs logging" where
  "setLevel s name lvl =
     (case loggers s name of
        None \<Rightarrow> s
      | Some lg \<Rightarrow> s\<lparr>loggers := (loggers s)(name \<mapsto> lg\<lparr>lg_level := lvl\<rparr>)\<rparr>)"

definition handlers_of :: "'fs logging \<Rightarrow> string \<Rightarrow> handler list" where
  "handlers_of s name = (case loggers s name of None \<Rightarrow> [] | Some lg \<Rightarrow> lg_handlers lg)"

definition addHandler :: "'fs logging \<Rightarrow> string \<Rightarrow> handler \<Rightarrow> 'fs logging" where
  "addHandler s name h =
     (case loggers s name of
        None \<Rightarrow> s
      | Some lg \<Rightarrow>
          if h \<in> set (lg_handlers lg) then s
          else s\<lparr>loggers := (loggers s)(name \<mapsto> lg\<lparr>lg_handlers := lg_handlers lg @ [h]\<rparr>)\<rparr>)"

text \<open>\<open>os.path.join\<close> of a directory and a relative file name, on POSIX.\<close>

definition path_join :: "string \<Rightarrow> string \<Rightarrow> string" where
  "path_join a b = (if a = [] \<or> last a = CHR ''/'' then a @ b else a @ ''/'' @ b)"

text \<open>
  \<open>LoggingWrapper.__init__\<close>. An argument left out is \<open>None\<close> and takes the default of the
  signature. The wrapper object holds the logger of the given name.
\<close>

definition LoggingWrapper_init ::
  "'fs platform \<Rightarrow> 'fs logging \<Rightarrow> string \<Rightarrow> string option \<Rightarrow> nat option \<Rightarrow> nat option \<Rightarrow>
   nat option \<Rightarrow> nat option \<Rightarrow> (exn + unit) \<times> 'fs logging" where
  "LoggingWrapper_init os s name log_dir_arg log_level_arg console_level_arg max_bytes_arg
     backup_count_arg =
     (let log_dir = (case log_dir_arg of None \<Rightarrow> ''logs'' | Some d \<Rightarrow> d);
          log_level = (case log_level_arg of None \<Rightarrow> logging_DEBUG | Some l \<Rightarrow> l);
          console_level = (case console_level_arg of None \<Rightarrow> logging_ERROR | Some l \<Rightarrow> l);
          max_bytes = (case max_bytes_arg of None \<Rightarrow> 5 * 1024 * 1024 | Some m \<Rightarrow> m);
          backup_count = (case backup_count_arg of None \<Rightarrow> 5 | Some b \<Rightarrow> b);
          s1 = setLevel (getLogger s name) name logging_DEBUG;
          formatter = ''%(asctime)s - %(name)s - %(levelname)s - %(message)s''
      in case (if \<not> path_exists os (filesystem s1) log_dir
               then makedirs os (filesystem s1) log_dir else Inr (filesystem s1)) of
           Inl e \<Rightarrow> (Inl e, s1)
         | Inr fs1 \<Rightarrow>
             (let now = strftime_now os;
                  log_file = path_join log_dir (''log_'' @ now @ ''.log'')
              in case open_append os fs1 log_file of
                   Inl e \<Rightarrow> (Inl e, s1\<lparr>filesystem := fs1\<rparr>)
                 | Inr fs2 \<Rightarrow>
                     (let fh = \<lparr>h_sink = RotatingFile log_file max_bytes backup_count,
                                h_level = log_level, h_formatter = formatter\<rparr>;
                          ch = \<lparr>h_sink = Stream, h_level = console_level,
                                h_formatter = formatter\<rparr>;
                          s2 = s1\<lparr>filesystem := fs2\<rparr>
                      in (Inr (),
                          if handlers_of s2 name = []
                          then addHandler (addHandler s2 name fh) name ch
                          else s2))))"

text \<open>
  A logging call on the wrapper goes to the logger's method of the same level. The logger
  takes a record at or above its own level and hands it to each of its handlers whose level
  the record reaches; the result lists the lines written, each with the sink that got it.
  \<open>asctime\<close> is the formatted time of the call. Every logger of a wrapper has the level
  DEBUG, so the library's inheritance of an unset level does not arise; the propagation of
  a record to the handlers of ancestor loggers belongs to the library's registry and is not
  part of the model, which lists the lines written by the named logger's own sinks.
\<close>

definition getLevelName :: "nat \<Rightarrow> string" where
  "getLevelName lvl =
     (if lvl = 50 then ''CRITICAL'' else if lvl = 40 then ''ERROR''
      else if lvl = 30 then ''WARNING'' else if lvl = 20 then ''INFO''
      else if lvl = 10 then ''DEBUG'' else if lvl = 0 then ''NOTSET''
      else ''Level '' @ str_of_nat lvl)"

definition format_record :: "string \<Rightarrow> string \<Rightarrow> nat \<Rightarrow> string \<Rightarrow> string" where
  "format_record asctime name lvl msg =
     asctime @ '' - '' @ name @ '' - '' @ getLevelName lvl @ '' - '' @ msg"

definition Logger_log :: "string \<Rightarrow> 'fs logging \<Rightarrow> string \<Rightarrow> nat \<Rightarrow> string \<Rightarrow> (sink \<times> string) list" where
  "Logger_log asctime s name lvl msg =
     (case loggers s name of
        None \<Rightarrow> []
      | Some lg \<Rightarrow>
          if lg_level lg \<le> lvl
          then map (\<lambda>h. (h_sink h, format_record asctime name lvl msg))
                 (filter (\<lambda>h. h_level h \<le> lvl) (lg_handlers lg))
          else [])"

definition LoggingWrapper_debug :: "string \<Rightarrow> 'fs logging \<Rightarrow> string \<Rightarrow> string \<Rightarrow> (sink \<times> string) list" where
  "LoggingWrapper_debug asctime s name msg = Logger_log asctime s name logging_DEBUG msg"

definition LoggingWrapper_info :: "string \<Rightarrow> 'fs logging \<Rightarrow> string \<Rightarrow> string \<Rightarrow> (sink \<times> string) list" where
  "LoggingWrapper_info asctime s name msg = Logger_log asctime s name logging_INFO msg"

definition LoggingWrapper_warning :: "string \<Rightarrow> 'fs logging \<Rightarrow> string \<Rightarrow> string \<Rightarrow> (sink \<times> string) list" where
  "LoggingWrapper_warning asctime s name msg = Logger_log asctime s name logging_WARNING msg"

definition LoggingWrapper_error :: "string \<Rightarrow> 'fs logging \<Rightarrow> string \<Rightarrow> string \<Rightarrow> (sink \<times> string) list" where
  "LoggingWrapper_error asctime s name msg = Logger_log asctime s name logging_ERROR msg"

definition LoggingWrapper_critical :: "string \<Rightarrow> 'fs logging \<Rightarrow> string \<Rightarrow> string \<Rightarrow> (sink \<times> string) list" where
  "LoggingWrapper_critical asctime s name msg = Logger_log asctime s name logging_CRITICAL msg"

text \<open>
  A platform to run the model on: the file system is the list of the paths that exist;
  making a directory and opening a file succeed and add the path.
\<close>

definition simple_platform :: "string \<Rightarrow> string list platform" where
  "simple_platform stamp =
     \<lparr>path_exists = (\<lambda>fs p. p \<in> set fs),
      makedirs = (\<lambda>fs p. Inr (p # fs)),
      open_append = (\<lambda>fs p. Inr (p # fs)),
      strftime_now = stamp\<rparr>"

section \<open>Properties of PathSetup\<close>

lemma dirname_example: "dirname (dirname ''/proj/utils/path_setup.py'') = ''/proj''"
  by (simp add: dirname_def head_upto_sep_def rstrip_sep_def)

text \<open>
  Claim C6, as stated, for every search path: after the call the project root occurs in the
  path at most once. A search path that already lists the project root twice is left as it
  is, so the root still occurs twice.
\<close>

theorem add_project_root_keeps_duplicates:
  "count_list (add_project_root_to_sys_path ''/proj/utils/path_setup.py''
      [''/proj'', ''/site'', ''/proj'']) ''/proj'' = 2"
  by (simp add: add_project_root_to_sys_path_def dirname_example Let_def)

text \<open>
  Claim C6, amended: the project root is put at the front of the search path exactly when
  it is not yet in it; the call never adds a second occurrence (the root occurs once if it
  did not occur before, and as often as before otherwise); and the call is idempotent.
\<close>

theorem add_project_root_idempotent:
  "(dirname (dirname f) \<notin> set p \<longrightarrow>
      add_project_root_to_sys_path f p = dirname (dirname f) # p) \<and>
   (dirname (dirname f) \<in> set p \<longrightarrow> add_project_root_to_sys_path f p = p) \<and>
   count_list (add_project_root_to_sys_path f p) (dirname (dirname f)) =
     max 1 (count_list p (dirname (dirname f))) \<and>
   add_project_root_to_sys_path f (add_project_root_to_sys_path f p) =
     add_project_root_to_sys_path f p"
proof -
  let ?r = "dirname (dirname f)"
  show ?thesis
  proof (cases "?r \<in> set p")
    case True
    then have "count_list p ?r \<noteq> 0"
      by (simp add: count_list_0_iff)
    then have "max 1 (count_list p ?r) = count_list p ?r"
      by arith
    with True show ?thesis
      by (simp add: add_project_root_to_sys_path_def Let_def)
  next
    case False
    then have "count_list p ?r = 0"
      by (simp add: count_list_0_iff)
    with False show ?thesis
      by (simp add: add_project_root_to_sys_path_def Let_def)
  qed
qed

theorem add_project_root_idempotent_witness:
  "add_project_root_to_sys_path ''/proj/utils/path_setup.py'' [''/site''] = [''/proj'', ''/site''] \<and>
   add_project_root_to_sys_path ''/proj/utils/path_setup.py'' [''/proj'', ''/site''] =
     [''/proj'', ''/site''] \<and>
   count_list (add_project_root_to_sys_path ''/proj/utils/path_setup.py'' [''/site'']) ''/proj'' = 1"
  using add_project_root_idempotent [of "''/proj/utils/path_setup.py''" "[''/site'']"]
    add_project_root_idempotent [of "''/proj/utils/path_setup.py''" "[''/proj'', ''/site'']"]
  by (simp add: dirname_example)

section \<open>Properties of EnvManager\<close>

lemmas EnvManager_defs =
  EnvManager_call_def EnvManager_new_def object_new_def EnvManager_init_def bind_file_path_def
  load_env_def log_to_def dotenv_files_def fresh_process_def Let_def

lemma load_env_cls_instance:
  "load_env ld s p = (r, s') \<Longrightarrow> cls_instance s' = cls_instance s \<and> next_addr s' = next_addr s"
  by (auto simp: load_env_def log_to_def Let_def split: if_splits prod.splits sum.splits)

lemma EnvManager_init_cls_instance:
  "EnvManager_init ld s args kwargs = (r, s') \<Longrightarrow> cls_instance s' = cls_instance s"
  by (auto simp: EnvManager_init_def split: sum.splits if_splits dest: load_env_cls_instance)

lemma EnvManager_call_returns_instance:
  "EnvManager_call ld s args kwargs = (Inr a, s') \<Longrightarrow> cls_instance s' = Some a"
  by (auto simp: EnvManager_call_def EnvManager_new_def object_new_def
      split: sum.splits option.splits prod.splits if_splits dest!: EnvManager_init_cls_instance)

lemma EnvManager_call_keeps_instance:
  "EnvManager_call ld s args kwargs = (r, s') \<Longrightarrow> cls_instance s = Some a \<Longrightarrow>
   cls_instance s' = Some a"
  by (auto simp: EnvManager_call_def EnvManager_new_def
      split: sum.splits option.splits prod.splits if_splits dest!: EnvManager_init_cls_instance)

lemma run_constructions_shared:
  "cls_instance s = Some a \<Longrightarrow> run_constructions s reqs = (rs, s') \<Longrightarrow>
   set (returned rs) \<subseteq> {a} \<and> cls_instance s' = Some a"
proof (induction reqs arbitrary: s rs s')
  case Nil
  then show ?case by simp
next
  case (Cons req reqs)
  obtain ld args kwargs where req: "req = (ld, args, kwargs)"
    by (cases req)
  obtain r s1 where call: "EnvManager_call ld s args kwargs = (r, s1)"
    by (cases "EnvManager_call ld s args kwargs")
  obtain rs1 s2 where rest: "run_constructions s1 reqs = (rs1, s2)"
    by (cases "run_constructions s1 reqs")
  from Cons.prems(2) req call rest have rs: "rs = r # rs1" and s': "s' = s2"
    by simp_all
  from call Cons.prems(1) have inst1: "cls_instance s1 = Some a"
    by (rule EnvManager_call_keeps_instance)
  from Cons.IH [OF inst1 rest] have ih: "set (returned rs1) \<subseteq> {a}" "cls_instance s2 = Some a"
    by simp_all
  have "set (returned (r # rs1)) \<subseteq> {a}"
  proof (cases r)
    case (Inl e)
    with ih show ?thesis by simp
  next
    case (Inr b)
    with call have "cls_instance s1 = Some b"
      by (simp add: EnvManager_call_returns_instance)
    with inst1 have "b = a" by simp
    with Inr ih show ?thesis by simp
  qed
  with rs s' ih show ?case by simp
qed

text \<open>
  Claim C1: for every sequence of construction requests, whatever their arguments and
  whatever the files hold at each request, every request that returns an object returns the
  same one, the object kept in \<open>_instance\<close>: no two returned objects differ.
\<close>

theorem EnvManager_singleton:
  "run_constructions s reqs = (rs, s') \<Longrightarrow>
   (\<forall>a\<in>set (returned rs). \<forall>b\<in>set (returned rs). a = b) \<and>
   (\<forall>a\<in>set (returned rs). cls_instance s' = Some a)"
proof (induction reqs arbitrary: s rs s')
  case Nil
  then show ?case by simp
next
  case (Cons req reqs)
  obtain ld args kwargs where req: "req = (ld, args, kwargs)"
    by (cases req)
  obtain r s1 where call: "EnvManager_call ld s args kwargs = (r, s1)"
    by (cases "EnvManager_call ld s args kwargs")
  obtain rs1 s2 where rest: "run_constructions s1 reqs = (rs1, s2)"
    by (cases "run_constructions s1 reqs")
  from Cons.prems req call rest have rs: "rs = r # rs1" and s': "s' = s2"
    by simp_all
  show ?case
  proof (cases r)
    case (Inl e)
    with Cons.IH [OF rest] rs s' show ?thesis by simp
  next
    case (Inr a)
    with call have "cls_instance s1 = Some a"
      by (simp add: EnvManager_call_returns_instance)
    from run_constructions_shared [OF this rest]
    have "set (returned rs1) \<subseteq> {a}" and "cls_instance s2 = Some a"
      by simp_all
    with Inr rs s' show ?thesis by auto
  qed
qed

text \<open>
  Three requests in a fresh process (no argument, a positional path, a keyword path): each
  returns the object at address 0.
\<close>

theorem EnvManager_singleton_witness:
  "returned (fst (run_constructions (fresh_process Map.empty)
      [(dotenv_files [''.env'' \<mapsto> [(''K'', ''V'')]], [], []),
       (dotenv_files [''.env'' \<mapsto> [(''K'', ''V'')]], [''other.env''], []),
       (dotenv_files Map.empty, [], [(''file_path'', ''third.env'')])])) = [0, 0, 0] \<and>
   cls_instance (snd (run_constructions (fresh_process Map.empty)
      [(dotenv_files [''.env'' \<mapsto> [(''K'', ''V'')]], [], []),
       (dotenv_files [''.env'' \<mapsto> [(''K'', ''V'')]], [''other.env''], []),
       (dotenv_files Map.empty, [], [(''file_path'', ''third.env'')])])) = Some 0"
proof -
  let ?reqs = "[(dotenv_files [''.env'' \<mapsto> [(''K'', ''V'')]], [], []),
       (dotenv_files [''.env'' \<mapsto> [(''K'', ''V'')]], [''other.env''], []),
       (dotenv_files Map.empty, [], [(''file_path'', ''third.env'')])]"
  have run: "fst (run_constructions (fresh_process Map.empty) ?reqs) = [Inr 0, Inr 0, Inr 0]"
    by (simp add: EnvManager_defs)
  have "run_constructions (fresh_process Map.empty) ?reqs =
      (fst (run_constructions (fresh_process Map.empty) ?reqs),
       snd (run_constructions (fresh_process Map.empty) ?reqs))"
    by simp
  from EnvManager_singleton [OF this] run show ?thesis
    by simp
qed

lemma EnvManager_call_loaded:
  "cls_env_loaded s \<Longrightarrow> EnvManager_call ld s args kwargs = (r, s') \<Longrightarrow>
   environ s' = environ s \<and> dotenv_reads s' = dotenv_reads s \<and>
   log_records s' = log_records s \<and> cls_env_loaded s'"
  by (auto simp: EnvManager_call_def EnvManager_new_def object_new_def EnvManager_init_def
      split: sum.splits option.splits prod.splits if_splits)

text \<open>
  Claim C2: once \<open>_env_loaded\<close> is set, \<open>load_env\<close> returns with the state as it was, and a
  construction request with any arguments and any files reads no file, leaves the
  environment, the log and the flag as they were, and so every lookup gives what it gave
  before, whatever the files hold by then.
\<close>

theorem loaded_is_final:
  assumes "cls_env_loaded s"
  shows "load_env ld s p = (Inr (), s) \<and>
     environ (snd (EnvManager_call ld s args kwargs)) = environ s \<and>
     dotenv_reads (snd (EnvManager_call ld s args kwargs)) = dotenv_reads s \<and>
     log_records (snd (EnvManager_call ld s args kwargs)) = log_records s \<and>
     cls_env_loaded (snd (EnvManager_call ld s args kwargs)) \<and>
     fst (get_env_variable (snd (EnvManager_call ld s args kwargs)) name d) =
       fst (get_env_variable s name d)"
proof -
  obtain r s' where call: "EnvManager_call ld s args kwargs = (r, s')"
    by (cases "EnvManager_call ld s args kwargs")
  from EnvManager_call_loaded [OF assms call]
  have same: "environ s' = environ s" "dotenv_reads s' = dotenv_reads s"
    "log_records s' = log_records s" "cls_env_loaded s'"
    by simp_all
  have "fst (get_env_variable s' name d) = fst (get_env_variable s name d)"
    by (simp add: get_env_variable_def os_getenv_def same split: option.splits)
  with assms call same show ?thesis
    by (simp add: load_env_def)
qed

text \<open>
  The first construction loads \<open>K=V\<close>; the file is then changed to \<open>K=W\<close> and a second
  construction names another path: the lookup of \<open>K\<close> still gives \<open>V\<close>.
\<close>

theorem loaded_is_final_witness:
  "cls_env_loaded
     (snd (EnvManager_call (dotenv_files [''.env'' \<mapsto> [(''K'', ''V'')]])
        (fresh_process Map.empty) [] [])) \<and>
   fst (get_env_variable
     (snd (EnvManager_call (dotenv_files [''.env'' \<mapsto> [(''K'', ''W'')], ''other.env'' \<mapsto> [(''K'', ''W'')]])
        (snd (EnvManager_call (dotenv_files [''.env'' \<mapsto> [(''K'', ''V'')]])
           (fresh_process Map.empty) [] []))
        [''other.env''] []))
     ''K'' None) = Inr (Some ''V'')"
proof -
  let ?s1 = "snd (EnvManager_call (dotenv_files [''.env'' \<mapsto> [(''K'', ''V'')]])
        (fresh_process Map.empty) [] [])"
  have loaded: "cls_env_loaded ?s1"
    by (simp add: EnvManager_defs)
  have "fst (get_env_variable ?s1 ''K'' None) = Inr (Some ''V'')"
    by (simp add: EnvManager_defs get_env_variable_def os_getenv_def)
  with loaded_is_final [OF loaded] loaded show ?thesis
    by simp
qed

text \<open>
  Claim C3, as stated: with \<open>MISSING\<close> unset, \<open>get_env_variable("MISSING", "fallback")\<close>
  returns \<open>"fallback"\<close> and logs a warning. It returns \<open>"fallback"\<close>, and nothing is logged:
  the warning is guarded by \<open>value is None\<close>, and the value is the default.
\<close>

theorem get_env_variable_fallback_no_warning:
  "fst (get_env_variable (fresh_process Map.empty) ''MISSING'' (Some ''fallback'')) =
     Inr (Some ''fallback'') \<and>
   log_records (snd (get_env_variable (fresh_process Map.empty) ''MISSING'' (Some ''fallback''))) = []"
  by (simp add: get_env_variable_def os_getenv_def fresh_process_def)

text \<open>
  Claim C3, amended: for a name absent from the environment and a default \<open>d\<close> that is not
  \<open>None\<close>, \<open>get_env_variable\<close> returns \<open>d\<close> and logs nothing; the warning that notes the
  fallback is logged when the default is \<open>None\<close> as well, and \<open>None\<close> is returned.
\<close>

theorem get_env_variable_fallback:
  assumes "environ s name = None"
  shows "get_env_variable s name (Some d) = (Inr (Some d), s) \<and>
     get_env_variable s name None =
       (Inr None,
        log_to env_manager_name logging_WARNING
          (''Environment variable '' @ name @ '' not found, using default value: None'') s)"
  using assms by (simp add: get_env_variable_def os_getenv_def str_opt_def)

theorem get_env_variable_fallback_witness:
  "environ (fresh_process Map.empty) ''MISSING'' = None \<and>
   get_env_variable (fresh_process Map.empty) ''MISSING'' (Some ''fallback'') =
     (Inr (Some ''fallback''), fresh_process Map.empty) \<and>
   log_records (snd (get_env_variable (fresh_process Map.empty) ''MISSING'' None)) =
     [(''utils.env_manager'', 30,
       ''Environment variable MISSING not found, using default value: None'')]"
proof -
  have absent: "environ (fresh_process Map.empty) ''MISSING'' = None"
    by (simp add: fresh_process_def)
  from get_env_variable_fallback [OF absent] absent show ?thesis
    by (simp add: log_to_def fresh_process_def env_manager_name_def logging_WARNING_def)
qed

text \<open>
  Claim C4: when \<open>_env_loaded\<close> is not set and the loader raises an exception \<open>e\<close> (an
  \<open>Exception\<close>), \<open>load_env\<close> logs an error, raises a \<open>RuntimeError\<close> whose cause is \<open>e\<close>, and
  \<open>_env_loaded\<close> is still not set.
\<close>

theorem load_env_failure:
  assumes "\<not> cls_env_loaded s" and "load_dotenv p (environ s) = (Inl e, env')"
    and "is_Exception e"
  shows "fst (load_env load_dotenv s p) =
       Inl (RuntimeError (''Failed to load environment variables from '' @ p) (Some e)) \<and>
     \<not> cls_env_loaded (snd (load_env load_dotenv s p)) \<and>
     log_records (snd (load_env load_dotenv s p)) =
       log_records s @
         [(env_manager_name, logging_ERROR,
           ''Error loading environment variables from '' @ p @ '': '' @ str_exn e)]"
  using assms by (simp add: load_env_def log_to_def Let_def)

text \<open>A file that cannot be read: the loader raises \<open>OSError\<close>.\<close>

theorem load_env_failure_witness:
  "\<not> cls_env_loaded (fresh_process Map.empty) \<and>
   fst (load_env (\<lambda>p env. (Inl (OSError ''[Errno 13] Permission denied''), env))
          (fresh_process Map.empty) ''.env'') =
     Inl (RuntimeError ''Failed to load environment variables from .env''
            (Some (OSError ''[Errno 13] Permission denied''))) \<and>
   \<not> cls_env_loaded
     (snd (load_env (\<lambda>p env. (Inl (OSError ''[Errno 13] Permission denied''), env))
             (fresh_process Map.empty) ''.env'')) \<and>
   log_records
     (snd (load_env (\<lambda>p env. (Inl (OSError ''[Errno 13] Permission denied''), env))
             (fresh_process Map.empty) ''.env'')) =
     [(''utils.env_manager'', 40,
       ''Error loading environment variables from .env: [Errno 13] Permission denied'')]"
proof -
  have unloaded: "\<not> cls_env_loaded (fresh_process Map.empty)"
    by (simp add: fresh_process_def)
  have raises: "(\<lambda>p env. (Inl (OSError ''[Errno 13] Permission denied''), env)) ''.env''
      (environ (fresh_process Map.empty)) =
      (Inl (OSError ''[Errno 13] Permission denied''), environ (fresh_process Map.empty))"
    by simp
  have exc: "is_Exception (OSError ''[Errno 13] Permission denied'')"
    by simp
  from load_env_failure
    [of "fresh_process Map.empty" "\<lambda>p env. (Inl (OSError ''[Errno 13] Permission denied''), env)"
      "''.env''" "OSError ''[Errno 13] Permission denied''" "environ (fresh_process Map.empty)",
     OF unloaded raises exc] unloaded
  show ?thesis
    by (simp add: fresh_process_def env_manager_name_def logging_ERROR_def)
qed

text \<open>
  Claim C5: when \<open>_env_loaded\<close> is not set and the loader reports that it found no
  variables (the file is absent or holds none), \<open>load_env\<close> logs a warning, returns
  normally and sets \<open>_env_loaded\<close>.
\<close>

theorem load_env_nothing_found:
  assumes "\<not> cls_env_loaded s" and "load_dotenv p (environ s) = (Inr False, env')"
  shows "fst (load_env load_dotenv s p) = Inr () \<and>
     cls_env_loaded (snd (load_env load_dotenv s p)) \<and>
     log_records (snd (load_env load_dotenv s p)) =
       log_records s @
         [(env_manager_name, logging_WARNING, ''No environment variables found in '' @ p)]"
  using assms by (simp add: load_env_def log_to_def Let_def)

text \<open>An absent file (\<open>.env\<close>) and a file without bindings (\<open>empty.env\<close>).\<close>

theorem load_env_nothing_found_witness:
  "\<not> cls_env_loaded (fresh_process Map.empty) \<and>
   fst (load_env (dotenv_files [''empty.env'' \<mapsto> []]) (fresh_process Map.empty) ''.env'') = Inr () \<and>
   cls_env_loaded
     (snd (load_env (dotenv_files [''empty.env'' \<mapsto> []]) (fresh_process Map.empty) ''.env'')) \<and>
   log_records
     (snd (load_env (dotenv_files [''empty.env'' \<mapsto> []]) (fresh_process Map.empty) ''.env'')) =
     [(''utils.env_manager'', 30, ''No environment variables found in .env'')] \<and>
   log_records
     (snd (load_env (dotenv_files [''empty.env'' \<mapsto> []]) (fresh_process Map.empty) ''empty.env'')) =
     [(''utils.env_manager'', 30, ''No environment variables found in empty.env'')]"
proof -
  let ?ld = "dotenv_files [''empty.env'' \<mapsto> []]"
  have unloaded: "\<not> cls_env_loaded (fresh_process Map.empty)"
    by (simp add: fresh_process_def)
  have absent: "?ld ''.env'' (environ (fresh_process Map.empty)) =
      (Inr False, environ (fresh_process Map.empty))"
    by (simp add: dotenv_files_def)
  have empty: "?ld ''empty.env'' (environ (fresh_process Map.empty)) =
      (Inr False, environ (fresh_process Map.empty))"
    by (simp add: dotenv_files_def)
  from load_env_nothing_found
      [of "fresh_process Map.empty" ?ld "''.env''" "environ (fresh_process Map.empty)",
       OF unloaded absent]
    load_env_nothing_found
      [of "fresh_process Map.empty" ?ld "''empty.env''" "environ (fresh_process Map.empty)",
       OF unloaded empty]
    unloaded
  show ?thesis
    by (simp add: fresh_process_def env_manager_name_def logging_WARNING_def)
qed

text \<open>
  Claim C10: while no instance exists, a construction request with any positional or
  keyword argument raises the \<open>TypeError\<close> of \<open>object.__new__\<close> (for a keyword named \<open>cls\<close>,
  the \<open>TypeError\<close> of binding it in \<open>__new__\<close>) and leaves the state as it was, so no load
  is attempted. The request without arguments makes the instance; it reads
  the default path \<open>.env\<close> when nothing is loaded yet, and returns the instance when the
  loader returns.
\<close>

theorem first_construction_rejects_arguments:
  assumes "cls_instance s = None"
  shows "(args \<noteq> [] \<or> kwargs \<noteq> [] \<longrightarrow>
        EnvManager_call ld s args kwargs =
          (Inl (TypeError
             (if ''cls'' \<in> set (map fst kwargs)
              then ''EnvManager.__new__() got multiple values for argument 'cls'' @ [CHR 0x27]
              else ''object.__new__() takes exactly one argument (the type to instantiate)'')), s)) \<and>
     (cls_env_loaded s \<or> fst (ld ''.env'' (environ s)) = Inr b \<longrightarrow>
        fst (EnvManager_call ld s [] []) = Inr (next_addr s) \<and>
        cls_instance (snd (EnvManager_call ld s [] [])) = Some (next_addr s)) \<and>
     (\<not> cls_env_loaded s \<longrightarrow>
        dotenv_reads (snd (EnvManager_call ld s [] [])) = dotenv_reads s @ [''.env''])"
  using assms
  by (cases "ld ''.env'' (environ s)")
     (auto simp: EnvManager_call_def EnvManager_new_def object_new_def EnvManager_init_def
        bind_file_path_def load_env_def log_to_def Let_def split: sum.splits prod.splits if_splits)

text \<open>\<open>EnvManager('custom.env')\<close> and \<open>EnvManager()\<close> in a fresh process.\<close>

theorem first_construction_rejects_arguments_witness:
  "cls_instance (fresh_process Map.empty) = None \<and>
   EnvManager_call (dotenv_files Map.empty) (fresh_process Map.empty) [''custom.env''] [] =
     (Inl (TypeError ''object.__new__() takes exactly one argument (the type to instantiate)''),
      fresh_process Map.empty) \<and>
   fst (EnvManager_call (dotenv_files Map.empty) (fresh_process Map.empty) [] []) = Inr 0 \<and>
   dotenv_reads (snd (EnvManager_call (dotenv_files Map.empty) (fresh_process Map.empty) [] [])) =
     [''.env'']"
proof -
  have first: "cls_instance (fresh_process Map.empty) = None"
    by (simp add: fresh_process_def)
  have ok: "fst (dotenv_files Map.empty ''.env'' (environ (fresh_process Map.empty))) = Inr False"
    by (simp add: dotenv_files_def)
  have unloaded: "\<not> cls_env_loaded (fresh_process Map.empty)"
    by (simp add: fresh_process_def)
  from first_construction_rejects_arguments
    [OF first, of "[''custom.env'']" "[]" "dotenv_files Map.empty" False]
    first_construction_rejects_arguments
    [OF first, of "[]" "[]" "dotenv_files Map.empty" False]
    first ok unloaded
  show ?thesis
    by (simp add: fresh_process_def)
qed

section \<open>Properties of the example script\<close>











































section \<open>Properties of LoggingWrapper\<close>

lemma getLogger_setLevel_registered:
  "\<exists>lg. loggers (setLevel (getLogger s name) name logging_DEBUG) name = Some lg \<and>
        lg_level lg = logging_DEBUG \<and> lg_handlers lg = handlers_of s name"
  by (auto simp: getLogger_def setLevel_def handlers_of_def split: option.splits)

lemma getLogger_setLevel_again:
  "loggers s name = Some lg \<Longrightarrow> lg_level lg = logging_DEBUG \<Longrightarrow>
   loggers (setLevel (getLogger s name) name logging_DEBUG) = loggers s"
  by (auto simp: getLogger_def setLevel_def fun_eq_iff)

lemma handlers_of_filesystem [simp]:
  "handlers_of (s\<lparr>filesystem := fs\<rparr>) name = handlers_of s name"
  by (simp add: handlers_of_def)

lemma LoggingWrapper_init_success:
  assumes "LoggingWrapper_init os s name d l c m b = (Inr (), s1)"
  shows "\<exists>lg. loggers s1 name = Some lg \<and> lg_level lg = logging_DEBUG \<and>
     lg_handlers lg =
       (if handlers_of s name = []
        then [\<lparr>h_sink = RotatingFile
                  (path_join (case d of None \<Rightarrow> ''logs'' | Some x \<Rightarrow> x)
                     (''log_'' @ strftime_now os @ ''.log''))
                  (case m of None \<Rightarrow> 5 * 1024 * 1024 | Some x \<Rightarrow> x)
                  (case b of None \<Rightarrow> 5 | Some x \<Rightarrow> x),
                h_level = (case l of None \<Rightarrow> logging_DEBUG | Some x \<Rightarrow> x),
                h_formatter = ''%(asctime)s - %(name)s - %(levelname)s - %(message)s''\<rparr>,
              \<lparr>h_sink = Stream,
                h_level = (case c of None \<Rightarrow> logging_ERROR | Some x \<Rightarrow> x),
                h_formatter = ''%(asctime)s - %(name)s - %(levelname)s - %(message)s''\<rparr>]
        else handlers_of s name)"
proof -
  obtain lg where lg: "loggers (setLevel (getLogger s name) name logging_DEBUG) name = Some lg"
    "lg_level lg = logging_DEBUG" "lg_handlers lg = handlers_of s name"
    using getLogger_setLevel_registered by blast
  then have h: "handlers_of (setLevel (getLogger s name) name logging_DEBUG) name = handlers_of s name"
    by (simp add: handlers_of_def)
  from assms lg h show ?thesis
    by (auto simp: LoggingWrapper_init_def Let_def addHandler_def handlers_of_def
        split: sum.splits if_splits)
qed

lemma LoggingWrapper_init_again:
  assumes "loggers s name = Some lg" and "lg_level lg = logging_DEBUG" and "lg_handlers lg \<noteq> []"
  shows "loggers (snd (LoggingWrapper_init os s name d l c m b)) = loggers s"
proof -
  from assms have reg: "loggers (setLevel (getLogger s name) name logging_DEBUG) = loggers s"
    by (simp add: getLogger_setLevel_again)
  with assms have "handlers_of (setLevel (getLogger s name) name logging_DEBUG) name \<noteq> []"
    by (simp add: handlers_of_def)
  with reg show ?thesis
    by (auto simp: LoggingWrapper_init_def Let_def handlers_of_def split: sum.splits)
qed


text \<open>
  Claim C7: after a wrapper for \<open>name\<close> has been constructed, constructing a second one for
  the same name (with any arguments, at any time, whether or not it returns) leaves the
  registry as it is: the logger's handlers are the same, and an \<open>info\<close> call writes the same
  lines as after the first construction. If the logger had no handler before the first
  construction, it has the two handlers of the first wrapper, and the lines of one \<open>info\<close>
  call are pairwise different: no sink gets the line twice.
\<close>

theorem second_wrapper_attaches_nothing:
  assumes first: "LoggingWrapper_init os1 s name d1 l1 c1 m1 b1 = (Inr (), s1)"
    and second: "LoggingWrapper_init os2 s1 name d2 l2 c2 m2 b2 = (r, s2)"
  shows "loggers s2 = loggers s1 \<and>
     handlers_of s2 name = handlers_of s1 name \<and>
     LoggingWrapper_info t s2 name msg = LoggingWrapper_info t s1 name msg \<and>
     (handlers_of s name = [] \<longrightarrow>
        length (handlers_of s2 name) = 2 \<and> distinct (LoggingWrapper_info t s2 name msg))"
proof -
  from LoggingWrapper_init_success [OF first]
  obtain lg where lg: "loggers s1 name = Some lg" "lg_level lg = logging_DEBUG"
    and hs: "lg_handlers lg =
       (if handlers_of s name = []
        then [\<lparr>h_sink = RotatingFile
                  (path_join (case d1 of None \<Rightarrow> ''logs'' | Some x \<Rightarrow> x)
                     (''log_'' @ strftime_now os1 @ ''.log''))
                  (case m1 of None \<Rightarrow> 5 * 1024 * 1024 | Some x \<Rightarrow> x)
                  (case b1 of None \<Rightarrow> 5 | Some x \<Rightarrow> x),
                h_level = (case l1 of None \<Rightarrow> logging_DEBUG | Some x \<Rightarrow> x),
                h_formatter = ''%(asctime)s - %(name)s - %(levelname)s - %(message)s''\<rparr>,
              \<lparr>h_sink = Stream,
                h_level = (case c1 of None \<Rightarrow> logging_ERROR | Some x \<Rightarrow> x),
                h_formatter = ''%(asctime)s - %(name)s - %(levelname)s - %(message)s''\<rparr>]
        else handlers_of s name)"
    by blast
  from hs have nonempty: "lg_handlers lg \<noteq> []"
    by (simp split: if_splits)
  from LoggingWrapper_init_again [OF lg nonempty, of os2 d2 l2 c2 m2 b2] second
  have same: "loggers s2 = loggers s1"
    by simp
  then have h: "handlers_of s2 name = handlers_of s1 name"
    and i: "LoggingWrapper_info t s2 name msg = LoggingWrapper_info t s1 name msg"
    by (simp_all add: handlers_of_def LoggingWrapper_info_def Logger_log_def)
  have "length (handlers_of s2 name) = 2 \<and> distinct (LoggingWrapper_info t s2 name msg)"
    if "handlers_of s name = []"
    using that lg hs h i
    by (simp add: handlers_of_def LoggingWrapper_info_def Logger_log_def)
  with same h i show ?thesis
    by blast
qed

text \<open>
  Claim C9: a wrapper constructed with a name only, for a logger without handlers, attaches
  a rotating file sink in the directory \<open>logs\<close> with a threshold of \<open>5 * 1024 * 1024\<close> bytes
  and 5 backups at level DEBUG, and a console sink at level ERROR: a \<open>debug\<close> or \<open>warning\<close>
  call reaches the file only, an \<open>error\<close> call reaches both. The two levels are set
  independently: given levels \<open>l\<close> and \<open>c\<close>, the file sink has \<open>l\<close> and the console sink \<open>c\<close>.
\<close>

theorem LoggingWrapper_defaults:
  assumes "LoggingWrapper_init os s name None None None None None = (Inr (), s')"
    and "handlers_of s name = []"
  shows "handlers_of s' name =
       [\<lparr>h_sink = RotatingFile (''logs/log_'' @ strftime_now os @ ''.log'') 5242880 5,
         h_level = logging_DEBUG,
         h_formatter = ''%(asctime)s - %(name)s - %(levelname)s - %(message)s''\<rparr>,
        \<lparr>h_sink = Stream, h_level = logging_ERROR,
         h_formatter = ''%(asctime)s - %(name)s - %(levelname)s - %(message)s''\<rparr>] \<and>
     (5242880 :: nat) = 5 * 1024 * 1024 \<and>
     map fst (LoggingWrapper_debug t s' name msg) =
       [RotatingFile (''logs/log_'' @ strftime_now os @ ''.log'') 5242880 5] \<and>
     map fst (LoggingWrapper_warning t s' name msg) =
       [RotatingFile (''logs/log_'' @ strftime_now os @ ''.log'') 5242880 5] \<and>
     map fst (LoggingWrapper_error t s' name msg) =
       [RotatingFile (''logs/log_'' @ strftime_now os @ ''.log'') 5242880 5, Stream] \<and>
     (LoggingWrapper_init os s name None (Some l) (Some c) None None = (Inr (), s'') \<longrightarrow>
        map h_level (handlers_of s'' name) = [l, c])"
proof -
  from LoggingWrapper_init_success [OF assms(1)] assms(2)
  obtain lg where lg: "loggers s' name = Some lg" "lg_level lg = logging_DEBUG"
    "lg_handlers lg =
       [\<lparr>h_sink = RotatingFile (''logs/log_'' @ strftime_now os @ ''.log'') 5242880 5,
         h_level = logging_DEBUG,
         h_formatter = ''%(asctime)s - %(name)s - %(levelname)s - %(message)s''\<rparr>,
        \<lparr>h_sink = Stream, h_level = logging_ERROR,
         h_formatter = ''%(asctime)s - %(name)s - %(levelname)s - %(message)s''\<rparr>]"
    by (auto simp: path_join_def)
  then have a: "handlers_of s' name =
       [\<lparr>h_sink = RotatingFile (''logs/log_'' @ strftime_now os @ ''.log'') 5242880 5,
         h_level = logging_DEBUG,
         h_formatter = ''%(asctime)s - %(name)s - %(levelname)s - %(message)s''\<rparr>,
        \<lparr>h_sink = Stream, h_level = logging_ERROR,
         h_formatter = ''%(asctime)s - %(name)s - %(levelname)s - %(message)s''\<rparr>]"
    by (simp add: handlers_of_def)
  from lg have b: "map fst (LoggingWrapper_debug t s' name msg) =
       [RotatingFile (''logs/log_'' @ strftime_now os @ ''.log'') 5242880 5]"
    by (simp add: LoggingWrapper_debug_def Logger_log_def logging_DEBUG_def logging_ERROR_def)
  from lg have c: "map fst (LoggingWrapper_warning t s' name msg) =
       [RotatingFile (''logs/log_'' @ strftime_now os @ ''.log'') 5242880 5]"
    by (simp add: LoggingWrapper_warning_def Logger_log_def logging_DEBUG_def logging_ERROR_def
        logging_WARNING_def)
  from lg have d: "map fst (LoggingWrapper_error t s' name msg) =
       [RotatingFile (''logs/log_'' @ strftime_now os @ ''.log'') 5242880 5, Stream]"
    by (simp add: LoggingWrapper_error_def Logger_log_def logging_DEBUG_def logging_ERROR_def)
  have e: "map h_level (handlers_of s'' name) = [l, c]"
    if "LoggingWrapper_init os s name None (Some l) (Some c) None None = (Inr (), s'')"
    using LoggingWrapper_init_success [OF that] assms(2)
    by (auto simp: handlers_of_def)
  from a b c d e show ?thesis
    by simp
qed

lemmas LoggingWrapper_defs =
  LoggingWrapper_init_def getLogger_def setLevel_def addHandler_def handlers_of_def path_join_def
  simple_platform_def Let_def logging_DEBUG_def logging_ERROR_def logging_INFO_def

text \<open>
  Two wrappers named \<open>app\<close> with the console at INFO, five seconds apart: one \<open>info\<close> call
  writes one line to the first wrapper's file and one to the console.
\<close>

theorem second_wrapper_attaches_nothing_witness:
  "fst (LoggingWrapper_init (simple_platform ''20240101_120000'')
          \<lparr>loggers = Map.empty, filesystem = []\<rparr> ''app'' None None (Some 20) None None) = Inr () \<and>
   length (handlers_of
     (snd (LoggingWrapper_init (simple_platform ''20240101_120005'')
        (snd (LoggingWrapper_init (simple_platform ''20240101_120000'')
           \<lparr>loggers = Map.empty, filesystem = []\<rparr> ''app'' None None (Some 20) None None))
        ''app'' None None (Some 20) None None)) ''app'') = 2 \<and>
   LoggingWrapper_info ''2024-01-01 12:00:09,000''
     (snd (LoggingWrapper_init (simple_platform ''20240101_120005'')
        (snd (LoggingWrapper_init (simple_platform ''20240101_120000'')
           \<lparr>loggers = Map.empty, filesystem = []\<rparr> ''app'' None None (Some 20) None None))
        ''app'' None None (Some 20) None None)) ''app'' ''hello'' =
     [(RotatingFile ''logs/log_20240101_120000.log'' 5242880 5,
       ''2024-01-01 12:00:09,000 - app - INFO - hello''),
      (Stream, ''2024-01-01 12:00:09,000 - app - INFO - hello'')]"
proof -
  let ?s0 = "\<lparr>loggers = Map.empty, filesystem = []\<rparr> :: string list logging"
  let ?os1 = "simple_platform ''20240101_120000''"
  let ?os2 = "simple_platform ''20240101_120005''"
  let ?s1 = "snd (LoggingWrapper_init ?os1 ?s0 ''app'' None None (Some 20) None None)"
  let ?c2 = "LoggingWrapper_init ?os2 ?s1 ''app'' None None (Some 20) None None"
  have ok: "fst (LoggingWrapper_init ?os1 ?s0 ''app'' None None (Some 20) None None) = Inr ()"
    by (simp add: LoggingWrapper_defs)
  then have first: "LoggingWrapper_init ?os1 ?s0 ''app'' None None (Some 20) None None = (Inr (), ?s1)"
    by (metis prod.collapse)
  have second: "?c2 = (fst ?c2, snd ?c2)"
    by simp
  have none: "handlers_of ?s0 ''app'' = []"
    by (simp add: handlers_of_def)
  have one: "LoggingWrapper_info ''2024-01-01 12:00:09,000'' ?s1 ''app'' ''hello'' =
     [(RotatingFile ''logs/log_20240101_120000.log'' 5242880 5,
       ''2024-01-01 12:00:09,000 - app - INFO - hello''),
      (Stream, ''2024-01-01 12:00:09,000 - app - INFO - hello'')]"
    by (simp add: LoggingWrapper_defs LoggingWrapper_info_def Logger_log_def format_record_def
        getLevelName_def)
  from second_wrapper_attaches_nothing
    [OF first second, of "''2024-01-01 12:00:09,000''" "''hello''"] none
  have two: "length (handlers_of (snd ?c2) ''app'') = 2"
    and same: "LoggingWrapper_info ''2024-01-01 12:00:09,000'' (snd ?c2) ''app'' ''hello'' =
      LoggingWrapper_info ''2024-01-01 12:00:09,000'' ?s1 ''app'' ''hello''"
    by blast+
  from ok two same one show ?thesis
    by (simp only: simp_thms)
qed

text \<open>
  The wrapper \<open>app\<close> on an empty file system: the directory \<open>logs\<close> and the log file are
  made, and the two sinks have the levels 10 and 40.
\<close>

theorem LoggingWrapper_defaults_witness:
  "fst (LoggingWrapper_init (simple_platform ''20240101_120000'')
          \<lparr>loggers = Map.empty, filesystem = []\<rparr> ''app'' None None None None None) = Inr () \<and>
   handlers_of \<lparr>loggers = Map.empty, filesystem = ([] :: string list)\<rparr> ''app'' = [] \<and>
   handlers_of
     (snd (LoggingWrapper_init (simple_platform ''20240101_120000'')
        \<lparr>loggers = Map.empty, filesystem = []\<rparr> ''app'' None None None None None)) ''app'' =
     [\<lparr>h_sink = RotatingFile ''logs/log_20240101_120000.log'' 5242880 5, h_level = 10,
       h_formatter = ''%(asctime)s - %(name)s - %(levelname)s - %(message)s''\<rparr>,
      \<lparr>h_sink = Stream, h_level = 40,
       h_formatter = ''%(asctime)s - %(name)s - %(levelname)s - %(message)s''\<rparr>] \<and>
   filesystem
     (snd (LoggingWrapper_init (simple_platform ''20240101_120000'')
        \<lparr>loggers = Map.empty, filesystem = []\<rparr> ''app'' None None None None None)) =
     [''logs/log_20240101_120000.log'', ''logs''] \<and>
   map h_level (handlers_of
     (snd (LoggingWrapper_init (simple_platform ''20240101_120000'')
        \<lparr>loggers = Map.empty, filesystem = []\<rparr> ''app'' None (Some 30) (Some 50) None None))
     ''app'') = [30, 50]"
proof -
  let ?s0 = "\<lparr>loggers = Map.empty, filesystem = []\<rparr> :: string list logging"
  let ?os = "simple_platform ''20240101_120000''"
  let ?c = "LoggingWrapper_init ?os ?s0 ''app'' None None None None None"
  let ?d = "LoggingWrapper_init ?os ?s0 ''app'' None (Some 30) (Some 50) None None"
  have ok: "fst ?c = Inr ()"
    by (simp add: LoggingWrapper_defs)
  then have call: "?c = (Inr (), snd ?c)"
    by (metis prod.collapse)
  have "fst ?d = Inr ()"
    by (simp add: LoggingWrapper_defs)
  then have other: "?d = (Inr (), snd ?d)"
    by (metis prod.collapse)
  have none: "handlers_of ?s0 ''app'' = []"
    by (simp add: handlers_of_def)
  have fs: "filesystem (snd ?c) = [''logs/log_20240101_120000.log'', ''logs'']"
    by (simp add: LoggingWrapper_defs)
  have stamp: "strftime_now ?os = ''20240101_120000''"
    by (simp add: simple_platform_def)
  from LoggingWrapper_defaults [OF call none, of _ _ 30 50 "snd ?d"] other ok none fs stamp
  show ?thesis
    by (simp add: logging_DEBUG_def logging_ERROR_def)
qed

end
